theory Spec2Isabelle
  imports Complex_Main "HOL-Library.Multiset"
begin

section \<open>Data model of the reliability-metrics engine\<close>

text \<open>
  The engine is \<^verbatim>\<open>KPICalculator\<close> in \<^verbatim>\<open>utils/kpi_calculator.py\<close>. Its inputs are
  Python dictionaries. Conventions of the embedding:
  \<^item> a \<^verbatim>\<open>datetime\<close> is an \<open>int\<close>: microseconds from a fixed origin (naive datetimes),
    so a \<^verbatim>\<open>timedelta\<close> is the difference of two of them;
  \<^item> a Python \<^verbatim>\<open>float\<close> is a \<open>real\<close>: rounding is not modelled;
  \<^item> a raised exception is \<open>Inl\<close> of an \<open>error\<close>;
  \<^item> a dictionary entry is a \<open>campo\<close>: the key is missing, it holds \<^verbatim>\<open>None\<close>, or
    it holds a value of the type the field has (text that is not numeric where a number
    is expected is outside the model);
  \<^item> \<^verbatim>\<open>datetime.fromisoformat\<close> belongs to the Python library and is a parameter
    \<open>isof\<close> of the model: \<open>isof s = None\<close> when the library raises \<^verbatim>\<open>ValueError\<close> on \<open>s\<close>.
\<close>

datatype error = ValueError | TypeError | ZeroDivisionError

datatype 'a campo = SinClave | Nulo | Valor 'a

type_synonym datetime = int

type_synonym isoparser = "string \<Rightarrow> datetime option"

definition total_seconds :: "int \<Rightarrow> real" where
  "total_seconds delta = real_of_int delta / 1000000"

definition un_dia :: int where
  "un_dia = 86400 * 1000000"

section \<open>The primitives\<close>

text \<open>\<^verbatim>\<open>calcular_mtbf\<close>: the loop over \<^verbatim>\<open>range(1, len(fechas_ordenadas))\<close> is the map
  over \<open>[1..<length fechas_ordenadas]\<close>; both indices are in range there.\<close>

definition diferencias_de :: "datetime list \<Rightarrow> real list" where
  "diferencias_de fechas_ordenadas =
     map (\<lambda>i. total_seconds (fechas_ordenadas ! i - fechas_ordenadas ! (i - 1)) / 3600)
         [1..<length fechas_ordenadas]"

definition calcular_mtbf :: "datetime list \<Rightarrow> real \<times> nat" where
  "calcular_mtbf fechas_fallas =
     (if length fechas_fallas < 2 then (0, 0)
      else let fechas_ordenadas = sort fechas_fallas;
               diferencias = diferencias_de fechas_ordenadas
           in if diferencias = [] then (0, 0)
              else (sum_list diferencias / real (length diferencias), length diferencias))"

definition calcular_mttr :: "real list \<Rightarrow> real" where
  "calcular_mttr tiempos_reparacion =
     (if tiempos_reparacion = [] then 0
      else sum_list tiempos_reparacion / real (length tiempos_reparacion))"

text \<open>\<^verbatim>\<open>calcular_disponibilidad\<close>: Python raises \<^verbatim>\<open>ZeroDivisionError\<close> when the
  denominator is zero, where HOL's division would return 0.\<close>

definition calcular_disponibilidad :: "real \<Rightarrow> real \<Rightarrow> error + real" where
  "calcular_disponibilidad mtbf mttr =
     (if mtbf \<le> 0 then Inr 0
      else if mtbf + mttr = 0 then Inl ZeroDivisionError
      else Inr (mtbf / (mtbf + mttr)))"

text \<open>The specification's wording of the intervals: the elapsed hours between each pair of
  neighbours of a list, by recursion on the list.\<close>

fun intervalos_consecutivos :: "datetime list \<Rightarrow> real list" where
  "intervalos_consecutivos (x # y # zs) =
     total_seconds (y - x) / 3600 # intervalos_consecutivos (y # zs)"
| "intervalos_consecutivos _ = []"

section \<open>Records of the callers\<close>

text \<open>The keys of a failure dictionary and of a work-order dictionary that the engine
  reads. The key \<^verbatim>\<open>'estado'\<close> of a work order is the field \<open>estado_ot\<close>.\<close>

record falla =
  estado :: "string campo"
  fecha_reporte :: "string campo"
  tiempo_fuera_servicio_h :: "real campo"
  causa_raiz :: "string campo"
  costo_reparacion :: "real campo"

record orden =
  tipo :: "string campo"
  estado_ot :: "string campo"
  fecha_fin :: "string campo"
  fecha_programada :: "string campo"
  costo_real :: "real campo"

text \<open>\<^verbatim>\<open>d.get(k)\<close>: \<^verbatim>\<open>None\<close> when the key is missing or holds \<^verbatim>\<open>None\<close>.\<close>

fun get :: "'a campo \<Rightarrow> 'a option" where
  "get (Valor v) = Some v"
| "get _ = None"

text \<open>\<^verbatim>\<open>datetime.fromisoformat(v)\<close>: \<^verbatim>\<open>TypeError\<close> on \<^verbatim>\<open>None\<close>,
  \<^verbatim>\<open>ValueError\<close> on text the library rejects.\<close>

definition fromisoformat :: "isoparser \<Rightarrow> string option \<Rightarrow> error + datetime" where
  "fromisoformat isof v =
     (case v of None \<Rightarrow> Inl TypeError
      | Some s \<Rightarrow> (case isof s of None \<Rightarrow> Inl ValueError | Some t \<Rightarrow> Inr t))"

text \<open>Truth value of \<^verbatim>\<open>ot.get(k)\<close> for a text field: \<^verbatim>\<open>None\<close> and the empty string
  are false.\<close>

definition verdadero :: "string campo \<Rightarrow> bool" where
  "verdadero c = (case get c of None \<Rightarrow> False | Some s \<Rightarrow> s \<noteq> [])"

section \<open>\<^verbatim>\<open>calcular_kpis_activo\<close>\<close>

record kpis =
  mtbf_horas :: real
  mttr_horas :: real
  disponibilidad :: real
  num_fallas :: nat
  num_intervalos_mtbf :: nat
  cumplimiento_preventivo :: "real option"
  costo_total_mantenimiento :: real
  ultima_actualizacion :: string

definition fallas_resueltas :: "falla list \<Rightarrow> falla list" where
  "fallas_resueltas fallas =
     filter (\<lambda>f. case get (estado f) of None \<Rightarrow> False
                 | Some s \<Rightarrow> s \<in> set [''Resuelta'', ''Cerrada'', ''COMPLETADA'']) fallas"

text \<open>The comprehension that builds \<^verbatim>\<open>fechas_fallas\<close>: a record without the key is
  skipped, any other is parsed, and the first exception ends the comprehension.\<close>

fun fechas_fallas_de :: "isoparser \<Rightarrow> falla list \<Rightarrow> error + datetime list" where
  "fechas_fallas_de isof [] = Inr []"
| "fechas_fallas_de isof (f # fs) =
     (if fecha_reporte f = SinClave then fechas_fallas_de isof fs
      else case fromisoformat isof (get (fecha_reporte f)) of
             Inl e \<Rightarrow> Inl e
           | Inr t \<Rightarrow> (case fechas_fallas_de isof fs of
                         Inl e \<Rightarrow> Inl e
                       | Inr ts \<Rightarrow> Inr (t # ts)))"

definition tiempos_reparacion_de :: "falla list \<Rightarrow> real list" where
  "tiempos_reparacion_de fs = List.map_filter (\<lambda>f. get (tiempo_fuera_servicio_h f)) fs"

definition preventivos_de :: "orden list \<Rightarrow> orden list" where
  "preventivos_de ordenes_trabajo =
     filter (\<lambda>ot. case get (tipo ot) of None \<Rightarrow> False
                  | Some s \<Rightarrow> s \<in> set [''Preventivo'', ''PREVENTIVO'', ''preventivo''])
            ordenes_trabajo"

text \<open>The condition of the generator inside \<^verbatim>\<open>sum(1 for ot in preventivos if ...)\<close>:
  \<^verbatim>\<open>and\<close> evaluates from the left and stops at the first false operand, so the two
  dates are parsed only for a completed order whose two date fields are true.\<close>

definition a_tiempo :: "isoparser \<Rightarrow> orden \<Rightarrow> error + bool" where
  "a_tiempo isof ot =
     (if (case get (estado_ot ot) of None \<Rightarrow> False
          | Some s \<Rightarrow> s \<in> set [''Completada'', ''COMPLETADA''])
         \<and> verdadero (fecha_fin ot) \<and> verdadero (fecha_programada ot)
      then case fromisoformat isof (get (fecha_fin ot)) of
             Inl e \<Rightarrow> Inl e
           | Inr fin \<Rightarrow> (case fromisoformat isof (get (fecha_programada ot)) of
                          Inl e \<Rightarrow> Inl e
                        | Inr prog \<Rightarrow> Inr (fin \<le> prog + un_dia))
      else Inr False)"

fun completados_a_tiempo :: "isoparser \<Rightarrow> orden list \<Rightarrow> error + nat" where
  "completados_a_tiempo isof [] = Inr 0"
| "completados_a_tiempo isof (ot # ots) =
     (case a_tiempo isof ot of
        Inl e \<Rightarrow> Inl e
      | Inr b \<Rightarrow> (case completados_a_tiempo isof ots of
                    Inl e \<Rightarrow> Inl e
                  | Inr n \<Rightarrow> Inr ((if b then 1 else 0) + n)))"

text \<open>\<^verbatim>\<open>if ordenes_trabajo:\<close> is false for \<^verbatim>\<open>None\<close> and for the empty list.\<close>

definition cumplimiento_de :: "isoparser \<Rightarrow> orden list option \<Rightarrow> error + real option" where
  "cumplimiento_de isof ordenes_trabajo =
     (case ordenes_trabajo of
        None \<Rightarrow> Inr None
      | Some ots \<Rightarrow>
          if ots = [] then Inr None
          else let preventivos = preventivos_de ots
               in if preventivos = [] then Inr None
                  else case completados_a_tiempo isof preventivos of
                         Inl e \<Rightarrow> Inl e
                       | Inr n \<Rightarrow> Inr (Some (real n / real (length preventivos) * 100)))"

definition costo_total_de :: "orden list option \<Rightarrow> real" where
  "costo_total_de ordenes_trabajo =
     (case ordenes_trabajo of
        None \<Rightarrow> 0
      | Some ots \<Rightarrow>
          if ots = [] then 0
          else sum_list (List.map_filter (\<lambda>ot. get (costo_real ot)) ots))"

text \<open>The function itself. \<open>ahora\<close> is the text \<^verbatim>\<open>datetime.now().isoformat()\<close> yields
  at the call, the only reading of the environment.\<close>

definition calcular_kpis_activo ::
  "isoparser \<Rightarrow> string \<Rightarrow> falla list \<Rightarrow> orden list option \<Rightarrow> error + kpis" where
  "calcular_kpis_activo isof ahora fallas ordenes_trabajo =
     (let resueltas = fallas_resueltas fallas
      in case fechas_fallas_de isof resueltas of
           Inl e \<Rightarrow> Inl e
         | Inr fechas_fallas \<Rightarrow>
             let (mtbf, num_intervalos) = calcular_mtbf fechas_fallas;
                 tiempos_reparacion = tiempos_reparacion_de resueltas;
                 mttr = (if tiempos_reparacion \<noteq> [] then calcular_mttr tiempos_reparacion
                         else 0)
             in case (if mtbf > 0 then calcular_disponibilidad mtbf mttr else Inr 1) of
                  Inl e \<Rightarrow> Inl e
                | Inr disp \<Rightarrow>
                    (case cumplimiento_de isof ordenes_trabajo of
                       Inl e \<Rightarrow> Inl e
                     | Inr cumplimiento \<Rightarrow>
                         Inr \<lparr>mtbf_horas = mtbf,
                              mttr_horas = mttr,
                              disponibilidad = disp,
                              num_fallas = length resueltas,
                              num_intervalos_mtbf = num_intervalos,
                              cumplimiento_preventivo = cumplimiento,
                              costo_total_mantenimiento = costo_total_de ordenes_trabajo,
                              ultima_actualizacion = ahora\<rparr>))"

section \<open>\<^verbatim>\<open>generar_reporte_estadistico\<close>\<close>

text \<open>The period filter. \<^verbatim>\<open>except (ValueError, TypeError): continue\<close> catches these two
  exceptions and no other.\<close>

fun filtrar_periodo ::
  "isoparser \<Rightarrow> datetime option \<Rightarrow> datetime option \<Rightarrow> falla list \<Rightarrow> error + falla list" where
  "filtrar_periodo isof periodo_inicio periodo_fin [] = Inr []"
| "filtrar_periodo isof periodo_inicio periodo_fin (falla # resto) =
     (if fecha_reporte falla = SinClave then filtrar_periodo isof periodo_inicio periodo_fin resto
      else case fromisoformat isof (get (fecha_reporte falla)) of
             Inl ValueError \<Rightarrow> filtrar_periodo isof periodo_inicio periodo_fin resto
           | Inl TypeError \<Rightarrow> filtrar_periodo isof periodo_inicio periodo_fin resto
           | Inl e \<Rightarrow> Inl e
           | Inr fecha_falla \<Rightarrow>
               if (case periodo_inicio of None \<Rightarrow> False | Some i \<Rightarrow> fecha_falla < i)
                  \<or> (case periodo_fin of None \<Rightarrow> False | Some f \<Rightarrow> fecha_falla > f)
               then filtrar_periodo isof periodo_inicio periodo_fin resto
               else (case filtrar_periodo isof periodo_inicio periodo_fin resto of
                       Inl e \<Rightarrow> Inl e
                     | Inr fallas_filtradas \<Rightarrow> Inr (falla # fallas_filtradas)))"

text \<open>\<^verbatim>\<open>falla.get('causa_raiz', 'No especificada')\<close>: the default is returned for a missing
  key only; a key that holds \<^verbatim>\<open>None\<close> gives \<^verbatim>\<open>None\<close>, which is a dictionary key like
  any other.\<close>

definition causa_de :: "falla \<Rightarrow> string option" where
  "causa_de falla =
     (case causa_raiz falla of
        SinClave \<Rightarrow> Some ''No especificada''
      | Nulo \<Rightarrow> None
      | Valor s \<Rightarrow> Some s)"

text \<open>A Python dictionary keeps the order in which its keys were first stored:
  \<^verbatim>\<open>causas_raiz[causa] = causas_raiz.get(causa, 0) + 1\<close> on an association list.\<close>

fun incrementar :: "'k \<Rightarrow> ('k \<times> nat) list \<Rightarrow> ('k \<times> nat) list" where
  "incrementar k [] = [(k, 1)]"
| "incrementar k ((k', c) # kvs) =
     (if k = k' then (k', c + 1) # kvs else (k', c) # incrementar k kvs)"

definition contar_causas :: "falla list \<Rightarrow> (string option \<times> nat) list" where
  "contar_causas fallas_filtradas =
     foldl (\<lambda>causas falla. incrementar (causa_de falla) causas) [] fallas_filtradas"

text \<open>\<^verbatim>\<open>sorted(items, key=lambda x: x[1], reverse=True)\<close> is stable: entries with the same
  count stay in their order. \<open>sort_key\<close> on the negated count is the same order.\<close>

definition causas_ordenadas :: "(string option \<times> nat) list \<Rightarrow> (string option \<times> nat) list" where
  "causas_ordenadas causas = sort_key (\<lambda>x. - int (snd x)) causas"

text \<open>The report. The empty dictionary \<^verbatim>\<open>{}\<close> is \<open>None\<close>. The key
  \<^verbatim>\<open>'distribucion_por_estado'\<close> is computed by the pandas library and is left out.\<close>

record reporte =
  periodo_inicio :: "datetime option"
  periodo_fin :: "datetime option"
  total_fallas :: nat
  tiempo_promedio_reparacion :: real
  tiempo_total_fuera_servicio :: real
  costo_total_reparaciones :: real
  causas_raiz_top :: "(string option \<times> nat) list"

definition estadisticas :: "datetime option \<Rightarrow> datetime option \<Rightarrow> falla list \<Rightarrow> reporte" where
  "estadisticas inicio fin fallas_filtradas =
     (let tiempos_reparacion =
            List.map_filter (\<lambda>f. get (tiempo_fuera_servicio_h f)) fallas_filtradas;
          costos_reparacion =
            List.map_filter (\<lambda>f. get (costo_reparacion f)) fallas_filtradas
      in \<lparr>periodo_inicio = inicio,
          periodo_fin = fin,
          total_fallas = length fallas_filtradas,
          tiempo_promedio_reparacion =
            (if tiempos_reparacion \<noteq> []
             then sum_list tiempos_reparacion / real (length tiempos_reparacion) else 0),
          tiempo_total_fuera_servicio = sum_list tiempos_reparacion,
          costo_total_reparaciones =
            (if costos_reparacion \<noteq> [] then sum_list costos_reparacion else 0),
          causas_raiz_top = take 5 (causas_ordenadas (contar_causas fallas_filtradas))\<rparr>)"

definition generar_reporte_estadistico ::
  "isoparser \<Rightarrow> falla list \<Rightarrow> datetime option \<Rightarrow> datetime option \<Rightarrow> error + reporte option" where
  "generar_reporte_estadistico isof fallas inicio fin =
     (if fallas = [] then Inr None
      else case (if inicio \<noteq> None \<or> fin \<noteq> None then filtrar_periodo isof inicio fin fallas
                 else Inr fallas) of
             Inl e \<Rightarrow> Inl e
           | Inr fallas_filtradas \<Rightarrow>
               if fallas_filtradas = [] then Inr None
               else Inr (Some (estadisticas inicio fin fallas_filtradas)))"

section \<open>Reference predicates and sample inputs\<close>

text \<open>The terminal states as the membership test of \<open>fallas_resueltas\<close> lists them.\<close>

definition estado_terminal :: "falla \<Rightarrow> bool" where
  "estado_terminal f =
     (estado f = Valor ''Resuelta'' \<or> estado f = Valor ''Cerrada''
      \<or> estado f = Valor ''COMPLETADA'')"



text \<open>A parser for the sample inputs: it agrees with \<^verbatim>\<open>datetime.fromisoformat\<close> on the
  dates of the specification's scenarios, counted from 2024-01-01T00:00:00, and rejects
  every other text.\<close>

definition iso_ejemplo :: isoparser where
  "iso_ejemplo s =
     (if s = ''2024-01-01T00:00:00'' then Some 0
      else if s = ''2024-01-03T00:00:00'' then Some (2 * un_dia)
      else if s = ''2024-01-10T00:00:00'' then Some (9 * un_dia)
      else if s = ''2024-01-05'' then Some (4 * un_dia)
      else if s = ''2024-01-08'' then Some (7 * un_dia)
      else None)"

text \<open>The empty dictionaries.\<close>

definition falla_vacia :: falla where
  "falla_vacia = \<lparr>estado = SinClave, fecha_reporte = SinClave,
     tiempo_fuera_servicio_h = SinClave, causa_raiz = SinClave, costo_reparacion = SinClave\<rparr>"

definition orden_vacia :: orden where
  "orden_vacia = \<lparr>tipo = SinClave, estado_ot = SinClave, fecha_fin = SinClave,
     fecha_programada = SinClave, costo_real = SinClave\<rparr>"

text \<open>Inside the period, in the specification's words: the report timestamp is present,
  parses, and lies between the bounds that are given, both ends included.\<close>

definition en_periodo :: "isoparser \<Rightarrow> datetime option \<Rightarrow> datetime option \<Rightarrow> falla \<Rightarrow> bool" where
  "en_periodo isof inicio fin f =
     (case fecha_reporte f of
        Valor s \<Rightarrow>
          (case isof s of
             Some t \<Rightarrow> (case inicio of None \<Rightarrow> True | Some i \<Rightarrow> i \<le> t) \<and>
                       (case fin of None \<Rightarrow> True | Some e \<Rightarrow> t \<le> e)
           | None \<Rightarrow> False)
      | _ \<Rightarrow> False)"

text \<open>The records a report is computed from: those inside the period when a bound is
  given, all of them otherwise.\<close>

definition fallas_del_periodo ::
  "isoparser \<Rightarrow> datetime option \<Rightarrow> datetime option \<Rightarrow> falla list \<Rightarrow> falla list" where
  "fallas_del_periodo isof inicio fin fallas =
     (if inicio \<noteq> None \<or> fin \<noteq> None then filter (en_periodo isof inicio fin) fallas
      else fallas)"

text \<open>Position of the first occurrence of a value in a list (the length of the list when
  it does not occur), and the distinct values of a list in the order of their first
  occurrence.\<close>

definition primera_posicion :: "'a list \<Rightarrow> 'a \<Rightarrow> nat" where
  "primera_posicion xs x = length (takeWhile (\<lambda>y. y \<noteq> x) xs)"

fun primeras :: "'a list \<Rightarrow> 'a list" where
  "primeras [] = []"
| "primeras (k # ks) = k # filter (\<lambda>x. x \<noteq> k) (primeras ks)"

text \<open>Order of the frequency table: a higher count first, and among equal counts the
  cause met first in the list of causes \<open>ks\<close>.\<close>

definition antes_en_tabla :: "'k list \<Rightarrow> 'k \<times> nat \<Rightarrow> 'k \<times> nat \<Rightarrow> bool" where
  "antes_en_tabla ks a b =
     (snd b < snd a \<or>
      (snd a = snd b \<and> primera_posicion ks (fst a) < primera_posicion ks (fst b)))"

section \<open>Properties of \<^verbatim>\<open>calcular_mtbf\<close> and \<^verbatim>\<open>calcular_disponibilidad\<close>\<close>

lemma diferencias_de_Cons2:
  "diferencias_de (x # y # zs) = total_seconds (y - x) / 3600 # diferencias_de (y # zs)"
proof -
  have "[1..<length (x # y # zs)] = 1 # map Suc [1..<length (y # zs)]"
    by (simp add: upt_conv_Cons map_Suc_upt del: upt_Suc)
  then show ?thesis
    by (simp add: diferencias_de_def del: upt_Suc)
qed

lemma diferencias_de_intervalos:
  "diferencias_de xs = intervalos_consecutivos xs"
proof (induction xs rule: intervalos_consecutivos.induct)
  case (1 x y zs)
  then show ?case by (simp add: diferencias_de_Cons2)
qed (simp_all add: diferencias_de_def)

lemma length_intervalos: "length (intervalos_consecutivos xs) = length xs - 1"
  by (induction xs rule: intervalos_consecutivos.induct) simp_all


lemma intervalos_nonneg:
  "sorted xs \<Longrightarrow> \<forall>d \<in> set (intervalos_consecutivos xs). 0 \<le> d"
  by (induction xs rule: intervalos_consecutivos.induct) (simp_all add: total_seconds_def)

lemma calcular_mtbf_short: "length ts < 2 \<Longrightarrow> calcular_mtbf ts = (0, 0)"
  by (simp add: calcular_mtbf_def)

lemma calcular_mtbf_long:
  assumes "2 \<le> length ts"
  shows "calcular_mtbf ts =
     (sum_list (intervalos_consecutivos (sort ts)) / real (length ts - 1), length ts - 1)"
proof -
  have "length (intervalos_consecutivos (sort ts)) = length ts - 1"
    by (simp add: length_intervalos)
  moreover from this assms have "intervalos_consecutivos (sort ts) \<noteq> []"
    by (metis One_nat_def Suc_1 Suc_le_lessD length_0_conv less_numeral_extra(3) zero_less_diff)
  ultimately show ?thesis using assms
    by (simp add: calcular_mtbf_def Let_def diferencias_de_intervalos)
qed












text \<open>
  Claim C2. With fewer than two timestamps \<open>calcular_mtbf\<close> returns \<open>(0, 0)\<close>. With
  \<open>n \<ge> 2\<close> timestamps it returns the arithmetic mean of the hours elapsed between
  neighbours of the ascending rearrangement of the input, and the interval count \<open>n - 1\<close>.
\<close>

theorem calcular_mtbf_media:
  "(length ts < 2 \<longrightarrow> calcular_mtbf ts = (0, 0)) \<and>
   (2 \<le> length ts \<longrightarrow>
      sorted (sort ts) \<and> mset (sort ts) = mset ts \<and>
      length (intervalos_consecutivos (sort ts)) = length ts - 1 \<and>
      calcular_mtbf ts =
        (sum_list (intervalos_consecutivos (sort ts)) / real (length ts - 1), length ts - 1))"
  using calcular_mtbf_short [of ts] calcular_mtbf_long [of ts]
  by (simp add: length_intervalos)

theorem calcular_mtbf_media_witness:
  "length [5 :: int] < 2 \<and> calcular_mtbf [5] = (0, 0) \<and>
   2 \<le> length [7200000000, 0, 3600000000 :: int] \<and>
   calcular_mtbf [7200000000, 0, 3600000000] = (1, 2)"
  using calcular_mtbf_media [of "[5]"] calcular_mtbf_media [of "[7200000000, 0, 3600000000]"]
  by (simp add: total_seconds_def)





section \<open>Properties of \<^verbatim>\<open>calcular_kpis_activo\<close>\<close>

lemma fallas_resueltas_filter: "fallas_resueltas fallas = filter estado_terminal fallas"
proof -
  have "(case get (estado f) of None \<Rightarrow> False
         | Some s \<Rightarrow> s \<in> set [''Resuelta'', ''Cerrada'', ''COMPLETADA'']) = estado_terminal f" for f
    by (cases "estado f") (auto simp: estado_terminal_def)
  then show ?thesis by (simp add: fallas_resueltas_def)
qed






lemma sum_list_nonneg_real: "\<forall>d \<in> set ds. (0::real) \<le> d \<Longrightarrow> 0 \<le> sum_list ds"
  by (induction ds) auto

lemma calcular_mtbf_nonneg: "0 \<le> fst (calcular_mtbf ts)"
proof (cases "2 \<le> length ts")
  case True
  have "\<forall>d \<in> set (intervalos_consecutivos (sort ts)). 0 \<le> d"
    by (rule intervalos_nonneg) simp
  then have "0 \<le> sum_list (intervalos_consecutivos (sort ts))" by (rule sum_list_nonneg_real)
  then show ?thesis using calcular_mtbf_long [OF True] by simp
next
  case False
  then show ?thesis by (simp add: calcular_mtbf_def)
qed



lemma kpis_campos:
  assumes "calcular_kpis_activo isof ahora fallas ordenes = Inr k"
  shows "\<exists>ts. fechas_fallas_de isof (fallas_resueltas fallas) = Inr ts \<and>
     mtbf_horas k = fst (calcular_mtbf ts) \<and>
     num_intervalos_mtbf k = snd (calcular_mtbf ts) \<and>
     mttr_horas k = calcular_mttr (tiempos_reparacion_de (fallas_resueltas fallas)) \<and>
     (if 0 < mtbf_horas k then calcular_disponibilidad (mtbf_horas k) (mttr_horas k)
      else Inr 1) = Inr (disponibilidad k) \<and>
     num_fallas k = length (fallas_resueltas fallas) \<and>
     cumplimiento_de isof ordenes = Inr (cumplimiento_preventivo k) \<and>
     costo_total_mantenimiento k = costo_total_de ordenes \<and>
     ultima_actualizacion k = ahora"
  using assms
  by (auto simp: calcular_kpis_activo_def Let_def calcular_mttr_def
           split: sum.splits prod.splits if_splits)



lemmas evalua_kpis =
  calcular_kpis_activo_def fallas_resueltas_def falla_vacia_def orden_vacia_def
  fromisoformat_def iso_ejemplo_def un_dia_def calcular_mtbf_def diferencias_de_def
  total_seconds_def tiempos_reparacion_de_def map_filter_simps calcular_mttr_def
  calcular_disponibilidad_def cumplimiento_de_def costo_total_de_def preventivos_de_def
  a_tiempo_def verdadero_def


text \<open>
  Claim C4. With no failures and no work orders (\<^verbatim>\<open>None\<close> or the empty list) the result
  is MTBF 0, MTTR 0, availability 1, no failures, compliance absent and cost 0. Whenever
  the computed MTBF is not greater than 0 the availability reported is 1, where the
  primitive \<open>calcular_disponibilidad\<close> would give 0.
\<close>

theorem kpis_sin_datos:
  "calcular_kpis_activo isof ahora [] None =
     Inr \<lparr>mtbf_horas = 0, mttr_horas = 0, disponibilidad = 1, num_fallas = 0,
          num_intervalos_mtbf = 0, cumplimiento_preventivo = None,
          costo_total_mantenimiento = 0, ultima_actualizacion = ahora\<rparr> \<and>
   calcular_kpis_activo isof ahora [] (Some []) =
     Inr \<lparr>mtbf_horas = 0, mttr_horas = 0, disponibilidad = 1, num_fallas = 0,
          num_intervalos_mtbf = 0, cumplimiento_preventivo = None,
          costo_total_mantenimiento = 0, ultima_actualizacion = ahora\<rparr> \<and>
   (calcular_kpis_activo isof ahora fallas ordenes = Inr k \<and> \<not> 0 < mtbf_horas k \<longrightarrow>
      disponibilidad k = 1 \<and>
      calcular_disponibilidad (mtbf_horas k) (mttr_horas k) = Inr 0)"
proof (intro conjI impI)
  show "calcular_kpis_activo isof ahora [] None =
     Inr \<lparr>mtbf_horas = 0, mttr_horas = 0, disponibilidad = 1, num_fallas = 0,
          num_intervalos_mtbf = 0, cumplimiento_preventivo = None,
          costo_total_mantenimiento = 0, ultima_actualizacion = ahora\<rparr>"
    by (simp add: calcular_kpis_activo_def fallas_resueltas_def calcular_mtbf_def
          tiempos_reparacion_de_def map_filter_simps cumplimiento_de_def costo_total_de_def)
  show "calcular_kpis_activo isof ahora [] (Some []) =
     Inr \<lparr>mtbf_horas = 0, mttr_horas = 0, disponibilidad = 1, num_fallas = 0,
          num_intervalos_mtbf = 0, cumplimiento_preventivo = None,
          costo_total_mantenimiento = 0, ultima_actualizacion = ahora\<rparr>"
    by (simp add: calcular_kpis_activo_def fallas_resueltas_def calcular_mtbf_def
          tiempos_reparacion_de_def map_filter_simps cumplimiento_de_def costo_total_de_def)
next
  assume a: "calcular_kpis_activo isof ahora fallas ordenes = Inr k \<and> \<not> 0 < mtbf_horas k"
  then have "(if 0 < mtbf_horas k then calcular_disponibilidad (mtbf_horas k) (mttr_horas k)
      else Inr 1) = Inr (disponibilidad k)"
    using kpis_campos [of isof ahora fallas ordenes k] by blast
  with a show "disponibilidad k = 1" by simp
  from a show "calcular_disponibilidad (mtbf_horas k) (mttr_horas k) = Inr 0"
    by (simp add: calcular_disponibilidad_def)
qed

theorem kpis_sin_datos_witness:
  "calcular_kpis_activo iso_ejemplo ''t''
     [falla_vacia\<lparr>estado := Valor ''Cerrada'', fecha_reporte := Valor ''2024-01-01T00:00:00'',
                  tiempo_fuera_servicio_h := Valor 2\<rparr>] None
   = Inr \<lparr>mtbf_horas = 0, mttr_horas = 2, disponibilidad = 1, num_fallas = 1,
          num_intervalos_mtbf = 0, cumplimiento_preventivo = None,
          costo_total_mantenimiento = 0, ultima_actualizacion = ''t''\<rparr> \<and>
   \<not> 0 < mtbf_horas \<lparr>mtbf_horas = 0, mttr_horas = 2, disponibilidad = 1, num_fallas = 1,
          num_intervalos_mtbf = 0, cumplimiento_preventivo = None,
          costo_total_mantenimiento = 0, ultima_actualizacion = ''t''\<rparr> \<and>
   calcular_disponibilidad 0 2 = Inr 0"
proof -
  let ?k = "\<lparr>mtbf_horas = 0, mttr_horas = 2, disponibilidad = 1, num_fallas = 1,
          num_intervalos_mtbf = 0, cumplimiento_preventivo = None,
          costo_total_mantenimiento = 0, ultima_actualizacion = ''t''\<rparr>"
  let ?fs = "[falla_vacia\<lparr>estado := Valor ''Cerrada'', fecha_reporte := Valor ''2024-01-01T00:00:00'',
                  tiempo_fuera_servicio_h := Valor 2\<rparr>]"
  have e: "calcular_kpis_activo iso_ejemplo ''t'' ?fs None = Inr ?k"
    by (simp add: evalua_kpis)
  then show ?thesis
    using kpis_sin_datos [of iso_ejemplo "''t''" ?fs None ?k] by simp
qed

lemma fechas_fallas_de_error:
  assumes "f \<in> set fs"
      and "fecha_reporte f = Nulo \<or> (\<exists>s. fecha_reporte f = Valor s \<and> isof s = None)"
  shows "\<exists>e. fechas_fallas_de isof fs = Inl e"
  using assms
proof (induction fs)
  case Nil
  then show ?case by simp
next
  case (Cons g gs)
  show ?case
  proof (cases "f = g")
    case True
    with Cons.prems(2) show ?thesis by (auto simp: fromisoformat_def)
  next
    case False
    with Cons obtain e where "fechas_fallas_de isof gs = Inl e" by auto
    then show ?thesis by (auto split: sum.splits)
  qed
qed

text \<open>
  Claim C5 at its failing inputs. One record in a terminal state whose report timestamp
  is \<^verbatim>\<open>None\<close> or is not a date makes \<open>calcular_kpis_activo\<close> raise: nothing is
  returned for the well-formed records beside it.
\<close>

theorem kpis_fecha_malformada_error:
  assumes "f \<in> set fallas" and "estado_terminal f"
      and "fecha_reporte f = Nulo \<or> (\<exists>s. fecha_reporte f = Valor s \<and> isof s = None)"
  shows "\<exists>e. calcular_kpis_activo isof ahora fallas ordenes = Inl e"
proof -
  from assms(1,2) have "f \<in> set (fallas_resueltas fallas)"
    by (simp add: fallas_resueltas_filter)
  then obtain e where "fechas_fallas_de isof (fallas_resueltas fallas) = Inl e"
    using assms(3) fechas_fallas_de_error by blast
  then show ?thesis by (simp add: calcular_kpis_activo_def)
qed

theorem kpis_fecha_malformada_error_witness:
  "calcular_kpis_activo iso_ejemplo ''t''
     [falla_vacia\<lparr>estado := Valor ''Resuelta'', fecha_reporte := Valor ''2024-01-01T00:00:00'',
                  tiempo_fuera_servicio_h := Valor 2\<rparr>,
      falla_vacia\<lparr>estado := Valor ''Resuelta'', fecha_reporte := Valor ''no-es-fecha'',
                  tiempo_fuera_servicio_h := Valor 4\<rparr>] None
   = Inl ValueError \<and>
   iso_ejemplo ''no-es-fecha'' = None \<and>
   estado_terminal (falla_vacia\<lparr>estado := Valor ''Resuelta'',
                      fecha_reporte := Valor ''no-es-fecha'',
                      tiempo_fuera_servicio_h := Valor 4\<rparr>)"
proof -
  let ?g = "falla_vacia\<lparr>estado := Valor ''Resuelta'', fecha_reporte := Valor ''no-es-fecha'',
                  tiempo_fuera_servicio_h := Valor 4\<rparr>"
  let ?fs = "[falla_vacia\<lparr>estado := Valor ''Resuelta'',
                  fecha_reporte := Valor ''2024-01-01T00:00:00'',
                  tiempo_fuera_servicio_h := Valor 2\<rparr>, ?g]"
  have n: "iso_ejemplo ''no-es-fecha'' = None" by (simp add: iso_ejemplo_def)
  have t: "estado_terminal ?g" by (simp add: estado_terminal_def)
  have m: "?g \<in> set ?fs" by simp
  have b: "fecha_reporte ?g = Nulo \<or> (\<exists>s. fecha_reporte ?g = Valor s \<and> iso_ejemplo s = None)"
    using n by simp
  obtain e where e: "calcular_kpis_activo iso_ejemplo ''t'' ?fs None = Inl e"
    using kpis_fecha_malformada_error [OF m t b] by blast
  have "calcular_kpis_activo iso_ejemplo ''t'' ?fs None = Inl ValueError"
    by (simp add: evalua_kpis)
  with e n t show ?thesis by simp
qed






section \<open>Properties of \<^verbatim>\<open>generar_reporte_estadistico\<close>\<close>

lemma filtrar_periodo_filter:
  "filtrar_periodo isof inicio fin fallas = Inr (filter (en_periodo isof inicio fin) fallas)"
proof (induction fallas)
  case Nil
  then show ?case by simp
next
  case (Cons f fs)
  show ?case
  proof (cases "fecha_reporte f")
    case SinClave
    with Cons show ?thesis by (simp add: en_periodo_def)
  next
    case Nulo
    with Cons show ?thesis by (simp add: en_periodo_def fromisoformat_def)
  next
    case (Valor s)
    show ?thesis
    proof (cases "isof s")
      case None
      with Valor Cons show ?thesis by (simp add: en_periodo_def fromisoformat_def)
    next
      case (Some t)
      with Valor Cons show ?thesis
        by (cases inicio; cases fin) (auto simp: en_periodo_def fromisoformat_def)
    qed
  qed
qed

lemma generar_reporte_eq:
  "generar_reporte_estadistico isof fallas inicio fin =
     (if fallas_del_periodo isof inicio fin fallas = [] then Inr None
      else Inr (Some (estadisticas inicio fin (fallas_del_periodo isof inicio fin fallas))))"
  by (auto simp: generar_reporte_estadistico_def fallas_del_periodo_def filtrar_periodo_filter)

lemma generar_reporte_sin_error:
  "\<exists>r. generar_reporte_estadistico isof fallas inicio fin = Inr r"
  by (simp add: generar_reporte_eq)

text \<open>
  Claim C6. \<open>generar_reporte_estadistico\<close> returns the empty result for an empty list
  and, when a bound is given, whenever no record is inside the period. With a bound the
  filter keeps exactly the records whose report timestamp parses and lies between the
  bounds given, both ends included (no lower or no upper limit when that bound is
  absent); a record whose timestamp is missing, null or unparseable is dropped.
\<close>

theorem reporte_filtro_periodo:
  "generar_reporte_estadistico isof [] inicio fin = Inr None \<and>
   (inicio \<noteq> None \<or> fin \<noteq> None \<longrightarrow>
      filtrar_periodo isof inicio fin fallas = Inr (filter (en_periodo isof inicio fin) fallas) \<and>
      (filter (en_periodo isof inicio fin) fallas = [] \<longrightarrow>
         generar_reporte_estadistico isof fallas inicio fin = Inr None) \<and>
      (filter (en_periodo isof inicio fin) fallas \<noteq> [] \<longrightarrow>
         generar_reporte_estadistico isof fallas inicio fin =
           Inr (Some (estadisticas inicio fin (filter (en_periodo isof inicio fin) fallas))) \<and>
         total_fallas (estadisticas inicio fin (filter (en_periodo isof inicio fin) fallas)) =
           length (filter (en_periodo isof inicio fin) fallas))) \<and>
   (fecha_reporte f = SinClave \<or> fecha_reporte f = Nulo \<or>
      (\<exists>s. fecha_reporte f = Valor s \<and> isof s = None) \<longrightarrow>
      f \<notin> set (filter (en_periodo isof inicio fin) fallas)) \<and>
   (fecha_reporte f = Valor s \<and> isof s = Some t \<longrightarrow>
      en_periodo isof inicio fin f =
        ((\<forall>i. inicio = Some i \<longrightarrow> i \<le> t) \<and> (\<forall>e. fin = Some e \<longrightarrow> t \<le> e)))"
proof (intro conjI impI)
  show "generar_reporte_estadistico isof [] inicio fin = Inr None"
    by (simp add: generar_reporte_estadistico_def)
  show "fecha_reporte f = SinClave \<or> fecha_reporte f = Nulo \<or>
      (\<exists>s. fecha_reporte f = Valor s \<and> isof s = None) \<Longrightarrow>
      f \<notin> set (filter (en_periodo isof inicio fin) fallas)"
    by (auto simp: en_periodo_def)
  show "fecha_reporte f = Valor s \<and> isof s = Some t \<Longrightarrow>
      en_periodo isof inicio fin f =
        ((\<forall>i. inicio = Some i \<longrightarrow> i \<le> t) \<and> (\<forall>e. fin = Some e \<longrightarrow> t \<le> e))"
    by (cases inicio; cases fin) (auto simp: en_periodo_def)
next
  assume b: "inicio \<noteq> None \<or> fin \<noteq> None"
  show "filtrar_periodo isof inicio fin fallas = Inr (filter (en_periodo isof inicio fin) fallas)"
    by (rule filtrar_periodo_filter)
  from b have p: "fallas_del_periodo isof inicio fin fallas = filter (en_periodo isof inicio fin) fallas"
    by (simp add: fallas_del_periodo_def)
  show "generar_reporte_estadistico isof fallas inicio fin = Inr None"
    if "filter (en_periodo isof inicio fin) fallas = []"
    using that p by (simp add: generar_reporte_eq)
  show "generar_reporte_estadistico isof fallas inicio fin =
           Inr (Some (estadisticas inicio fin (filter (en_periodo isof inicio fin) fallas)))"
    if "filter (en_periodo isof inicio fin) fallas \<noteq> []"
    using that p by (simp add: generar_reporte_eq)
  show "total_fallas (estadisticas inicio fin (filter (en_periodo isof inicio fin) fallas)) =
           length (filter (en_periodo isof inicio fin) fallas)"
    by (simp add: estadisticas_def Let_def)
qed

lemmas evalua_reporte =
  generar_reporte_estadistico_def falla_vacia_def fromisoformat_def iso_ejemplo_def
  un_dia_def estadisticas_def map_filter_simps contar_causas_def causa_de_def
  causas_ordenadas_def en_periodo_def

theorem reporte_filtro_periodo_witness:
  "generar_reporte_estadistico iso_ejemplo
     [falla_vacia\<lparr>fecha_reporte := Valor ''no-es-fecha''\<rparr>,
      falla_vacia,
      falla_vacia\<lparr>fecha_reporte := Valor ''2024-01-03T00:00:00''\<rparr>,
      falla_vacia\<lparr>fecha_reporte := Nulo\<rparr>,
      falla_vacia\<lparr>fecha_reporte := Valor ''2024-01-10T00:00:00''\<rparr>]
     (Some 0) (Some (2 * un_dia))
   = Inr (Some \<lparr>periodo_inicio = Some 0, periodo_fin = Some (2 * un_dia), total_fallas = 1,
                tiempo_promedio_reparacion = 0, tiempo_total_fuera_servicio = 0,
                costo_total_reparaciones = 0,
                causas_raiz_top = [(Some ''No especificada'', 1)]\<rparr>) \<and>
   generar_reporte_estadistico iso_ejemplo
     [falla_vacia\<lparr>fecha_reporte := Valor ''2024-01-10T00:00:00''\<rparr>, falla_vacia]
     None (Some un_dia)
   = Inr None"
proof -
  let ?a = "[falla_vacia\<lparr>fecha_reporte := Valor ''no-es-fecha''\<rparr>,
      falla_vacia,
      falla_vacia\<lparr>fecha_reporte := Valor ''2024-01-03T00:00:00''\<rparr>,
      falla_vacia\<lparr>fecha_reporte := Nulo\<rparr>,
      falla_vacia\<lparr>fecha_reporte := Valor ''2024-01-10T00:00:00''\<rparr>]"
  let ?b = "[falla_vacia\<lparr>fecha_reporte := Valor ''2024-01-10T00:00:00''\<rparr>, falla_vacia]"
  have fa: "filter (en_periodo iso_ejemplo (Some 0) (Some (2 * un_dia))) ?a
     = [falla_vacia\<lparr>fecha_reporte := Valor ''2024-01-03T00:00:00''\<rparr>]"
    by (simp add: en_periodo_def falla_vacia_def iso_ejemplo_def un_dia_def)
  have fb: "filter (en_periodo iso_ejemplo None (Some un_dia)) ?b = []"
    by (simp add: en_periodo_def falla_vacia_def iso_ejemplo_def un_dia_def)
  have ea: "estadisticas (Some 0) (Some (2 * un_dia))
       [falla_vacia\<lparr>fecha_reporte := Valor ''2024-01-03T00:00:00''\<rparr>]
     = \<lparr>periodo_inicio = Some 0, periodo_fin = Some (2 * un_dia), total_fallas = 1,
                tiempo_promedio_reparacion = 0, tiempo_total_fuera_servicio = 0,
                costo_total_reparaciones = 0,
                causas_raiz_top = [(Some ''No especificada'', 1)]\<rparr>"
    by (simp add: estadisticas_def falla_vacia_def map_filter_simps contar_causas_def
          causa_de_def causas_ordenadas_def)
  show ?thesis
    using reporte_filtro_periodo [of iso_ejemplo "Some 0" "Some (2 * un_dia)" ?a]
      reporte_filtro_periodo [of iso_ejemplo None "Some un_dia" ?b] fa fb ea
    by simp
qed

subsection \<open>The table of root causes\<close>

lemma incrementar_keys:
  "map fst (incrementar k d) = (if k \<in> set (map fst d) then map fst d else map fst d @ [k])"
proof (induction d)
  case Nil
  then show ?case by simp
next
  case (Cons a d)
  then show ?case by (cases a) (auto split: if_splits)
qed

lemma incrementar_map_of:
  "map_of (incrementar k d) =
     (map_of d)(k \<mapsto> (case map_of d k of None \<Rightarrow> 1 | Some c \<Rightarrow> c + 1))"
  by (induction d) (auto simp: fun_eq_iff)

lemma set_primeras: "set (primeras ks) = set ks"
  by (induction ks) auto

lemma distinct_primeras: "distinct (primeras ks)"
  by (induction ks) auto

lemma contar_keys:
  "map fst (foldl (\<lambda>d k. incrementar k d) d ks) =
     map fst d @ filter (\<lambda>x. x \<notin> set (map fst d)) (primeras ks)"
proof (induction ks arbitrary: d)
  case Nil
  then show ?case by simp
next
  case (Cons k ks)
  show ?case
  proof (cases "k \<in> set (map fst d)")
    case True
    then have "filter (\<lambda>x. x \<notin> set (map fst d)) (filter (\<lambda>x. x \<noteq> k) (primeras ks))
        = filter (\<lambda>x. x \<notin> set (map fst d)) (primeras ks)"
      by (auto intro: filter_cong)
    with True show ?thesis by (simp add: Cons.IH incrementar_keys)
  next
    case False
    have "filter (\<lambda>x. x \<notin> set (map fst d @ [k])) (primeras ks)
        = filter (\<lambda>x. x \<notin> set (map fst d)) (filter (\<lambda>x. x \<noteq> k) (primeras ks))"
      by (auto intro: filter_cong)
    with False show ?thesis by (simp add: Cons.IH incrementar_keys)
  qed
qed

lemma contar_map_of:
  "map_of (foldl (\<lambda>d k. incrementar k d) d ks) x =
     (case map_of d x of
        None \<Rightarrow> (if x \<in> set ks then Some (count_list ks x) else None)
      | Some c \<Rightarrow> Some (c + count_list ks x))"
proof (induction ks arbitrary: d)
  case Nil
  then show ?case by (simp split: option.splits)
next
  case (Cons k ks)
  show ?case
    by (simp add: Cons.IH incrementar_map_of split: option.splits)
qed

lemma alist_by_keys:
  "distinct (map fst xs) \<Longrightarrow> xs = map (\<lambda>k. (k, the (map_of xs k))) (map fst xs)"
proof (induction xs)
  case Nil
  then show ?case by simp
next
  case (Cons a xs)
  then have "map (\<lambda>k. (k, the (map_of (a # xs) k))) (map fst xs)
      = map (\<lambda>k. (k, the (map_of xs k))) (map fst xs)"
    by (intro map_cong) (auto simp: rev_image_eqI)
  with Cons show ?case by (cases a) simp
qed

lemma contar_causas_tabla:
  "contar_causas fs =
     map (\<lambda>k. (k, count_list (map causa_de fs) k)) (primeras (map causa_de fs))"
proof -
  let ?ks = "map causa_de fs"
  let ?t = "foldl (\<lambda>d k. incrementar k d) [] ?ks"
  have c: "contar_causas fs = ?t"
    by (simp add: contar_causas_def foldl_map)
  have k: "map fst ?t = primeras ?ks" by (simp add: contar_keys)
  then have "distinct (map fst ?t)" by (simp add: distinct_primeras)
  then have "?t = map (\<lambda>k. (k, the (map_of ?t k))) (map fst ?t)" by (rule alist_by_keys)
  also have "\<dots> = map (\<lambda>k. (k, the (map_of ?t k))) (primeras ?ks)" by (simp only: k)
  also have "\<dots> = map (\<lambda>k. (k, count_list ?ks k)) (primeras ?ks)"
    by (intro map_cong refl) (simp add: contar_map_of set_primeras)
  finally show ?thesis using c by simp
qed

subsection \<open>First occurrences\<close>

lemma primera_posicion_Cons:
  "primera_posicion (k # ks) x = (if x = k then 0 else Suc (primera_posicion ks x))"
  by (simp add: primera_posicion_def)

lemma primeras_orden:
  "sorted_wrt (\<lambda>a b. primera_posicion ks a < primera_posicion ks b) (primeras ks)"
proof (induction ks)
  case Nil
  then show ?case by simp
next
  case (Cons k ks)
  let ?rest = "filter (\<lambda>x. x \<noteq> k) (primeras ks)"
  have "sorted_wrt (\<lambda>a b. primera_posicion ks a < primera_posicion ks b) ?rest"
    using Cons.IH by (rule sorted_wrt_filter)
  then have "sorted_wrt (\<lambda>a b. primera_posicion (k # ks) a < primera_posicion (k # ks) b) ?rest"
    by (rule sorted_wrt_mono_rel [rotated]) (auto simp: primera_posicion_Cons)
  moreover have "\<forall>x \<in> set ?rest. primera_posicion (k # ks) k < primera_posicion (k # ks) x"
    by (auto simp: primera_posicion_Cons)
  ultimately show ?case by simp
qed

subsection \<open>A stable sort orders ties by the order of the input\<close>

lemma insort_key_lex:
  assumes "sorted_wrt (\<lambda>a b. f a < f b \<or> (f a = f b \<and> R a b)) ys"
      and "\<forall>y \<in> set ys. R x y"
  shows "sorted_wrt (\<lambda>a b. f a < f b \<or> (f a = f b \<and> R a b)) (insort_key f x ys)"
  using assms
proof (induction ys)
  case Nil
  then show ?case by simp
next
  case (Cons y ys)
  show ?case
  proof (cases "f x \<le> f y")
    case True
    have "\<forall>z \<in> set ys. f y \<le> f z" using Cons.prems(1) by auto
    with True have "\<forall>z \<in> set (y # ys). f x \<le> f z" by auto
    with Cons.prems show ?thesis using True by (auto simp: le_less)
  next
    case False
    then have "f y < f x" by simp
    moreover have "sorted_wrt (\<lambda>a b. f a < f b \<or> (f a = f b \<and> R a b)) (insort_key f x ys)"
      using Cons by simp
    ultimately show ?thesis using Cons.prems(1) False by (auto simp: set_insort_key)
  qed
qed

lemma sort_key_lex:
  "sorted_wrt R xs \<Longrightarrow>
   sorted_wrt (\<lambda>a b. f a < f b \<or> (f a = f b \<and> R a b)) (sort_key f xs)"
proof (induction xs)
  case Nil
  then show ?case by simp
next
  case (Cons x xs)
  then show ?case by (simp add: insort_key_lex)
qed

lemma count_list_map_filter:
  "count_list (map g xs) y = length (filter (\<lambda>x. g x = y) xs)"
  by (induction xs) auto

lemma causa_de_sentinel:
  "(causa_de f = Some ''No especificada'') =
     (causa_raiz f = SinClave \<or> causa_raiz f = Valor ''No especificada'')"
  by (cases "causa_raiz f") (auto simp: causa_de_def)

lemma tabla_orden:
  "sorted_wrt (\<lambda>a b. primera_posicion (map causa_de fs) (fst a)
                       < primera_posicion (map causa_de fs) (fst b)) (contar_causas fs)"
  using primeras_orden [of "map causa_de fs"]
  by (simp add: contar_causas_tabla sorted_wrt_map)

lemma causas_ordenadas_lex:
  "sorted_wrt (antes_en_tabla (map causa_de fs)) (causas_ordenadas (contar_causas fs))"
proof -
  let ?R = "\<lambda>a b. primera_posicion (map causa_de fs) (fst a)
                       < primera_posicion (map causa_de fs) (fst b)"
  let ?f = "\<lambda>x :: string option \<times> nat. - int (snd x)"
  have "sorted_wrt (\<lambda>a b. ?f a < ?f b \<or> (?f a = ?f b \<and> ?R a b))
          (sort_key ?f (contar_causas fs))"
    using tabla_orden by (rule sort_key_lex)
  moreover have "(\<lambda>a b. ?f a < ?f b \<or> (?f a = ?f b \<and> ?R a b)) = antes_en_tabla (map causa_de fs)"
    by (auto simp: antes_en_tabla_def fun_eq_iff)
  ultimately show ?thesis by (simp add: causas_ordenadas_def)
qed

lemma set_causas_ordenadas:
  "set (causas_ordenadas (contar_causas fs)) =
     (\<lambda>k. (k, count_list (map causa_de fs) k)) ` set (map causa_de fs)"
  by (simp add: causas_ordenadas_def contar_causas_tabla set_primeras)

lemma distinct_causas_ordenadas:
  "distinct (map fst (causas_ordenadas (contar_causas fs)))"
proof -
  have "distinct (contar_causas fs)"
    by (simp add: contar_causas_tabla distinct_map distinct_primeras inj_on_def)
  then have "distinct (causas_ordenadas (contar_causas fs))"
    by (simp add: causas_ordenadas_def)
  moreover have "inj_on fst (set (causas_ordenadas (contar_causas fs)))"
    by (auto simp: set_causas_ordenadas inj_on_def)
  ultimately show ?thesis by (simp add: distinct_map)
qed

lemma length_causas_ordenadas:
  "length (causas_ordenadas (contar_causas fs)) = length (primeras (map causa_de fs))"
  by (simp add: causas_ordenadas_def contar_causas_tabla)

lemma top5_de_tabla:
  fixes fs :: "falla list"
  defines "ks \<equiv> map causa_de fs"
  defines "cinco \<equiv> take 5 (causas_ordenadas (contar_causas fs))"
  shows "length cinco = min 5 (length (primeras ks))"
    and "sorted_wrt (\<lambda>a b. snd b \<le> snd a) cinco"
    and "sorted_wrt (antes_en_tabla ks) cinco"
    and "distinct (map fst cinco)"
    and "\<forall>(k, c) \<in> set cinco. k \<in> set ks \<and> c = count_list ks k"
    and "\<forall>k \<in> set ks. k \<notin> fst ` set cinco \<longrightarrow>
           length cinco = 5 \<and> (\<forall>a \<in> set cinco. antes_en_tabla ks a (k, count_list ks k))"
proof -
  let ?all = "causas_ordenadas (contar_causas fs)"
  have lex: "sorted_wrt (antes_en_tabla ks) ?all"
    unfolding ks_def by (rule causas_ordenadas_lex)
  show "length cinco = min 5 (length (primeras ks))"
    by (simp add: cinco_def ks_def length_causas_ordenadas min.commute)
  show l: "sorted_wrt (antes_en_tabla ks) cinco"
    unfolding cinco_def using lex by (rule sorted_wrt_take)
  show "sorted_wrt (\<lambda>a b. snd b \<le> snd a) cinco"
    using l by (rule sorted_wrt_mono_rel [rotated]) (auto simp: antes_en_tabla_def)
  show "distinct (map fst cinco)"
    unfolding cinco_def take_map [symmetric] by (rule distinct_take) (rule distinct_causas_ordenadas)
  have sub: "set cinco \<subseteq> set ?all" unfolding cinco_def by (rule set_take_subset)
  show "\<forall>(k, c) \<in> set cinco. k \<in> set ks \<and> c = count_list ks k"
    using sub by (auto simp: set_causas_ordenadas ks_def)
  show "\<forall>k \<in> set ks. k \<notin> fst ` set cinco \<longrightarrow>
           length cinco = 5 \<and> (\<forall>a \<in> set cinco. antes_en_tabla ks a (k, count_list ks k))"
  proof (intro ballI impI)
    fix k assume k: "k \<in> set ks" and out: "k \<notin> fst ` set cinco"
    have "(k, count_list ks k) \<in> set ?all" using k by (auto simp: set_causas_ordenadas ks_def)
    then have "(k, count_list ks k) \<in> set (take 5 ?all) \<union> set (drop 5 ?all)"
      by (metis append_take_drop_id set_append)
    moreover have "(k, count_list ks k) \<notin> set cinco" using out by force
    ultimately have d: "(k, count_list ks k) \<in> set (drop 5 ?all)" by (simp add: cinco_def)
    then have "drop 5 ?all \<noteq> []" by auto
    then have len: "length cinco = 5" by (simp add: cinco_def)
    have "sorted_wrt (antes_en_tabla ks) (take 5 ?all @ drop 5 ?all)" using lex by simp
    then have "\<forall>a \<in> set (take 5 ?all). \<forall>b \<in> set (drop 5 ?all). antes_en_tabla ks a b"
      unfolding sorted_wrt_append by blast
    with d have "\<forall>a \<in> set cinco. antes_en_tabla ks a (k, count_list ks k)"
      by (simp add: cinco_def)
    with len show "length cinco = 5 \<and> (\<forall>a \<in> set cinco. antes_en_tabla ks a (k, count_list ks k))"
      by simp
  qed
qed

text \<open>
  The frequency table of a report, for every input: it has at most five entries, as many
  as there are distinct causes when these are fewer than five; its counts do not
  increase along the table; an entry precedes another when its count is higher or, at
  equal counts, when its cause is met first among the records of the period; every
  entry carries the number of records of its cause; a cause that is left out has five
  entries before it in that order; and the entry \<^verbatim>\<open>'No especificada'\<close> counts the
  records without the key \<^verbatim>\<open>'causa_raiz'\<close> together with those that carry that very
  text.
\<close>

theorem causas_raiz_top5:
  assumes "generar_reporte_estadistico isof fallas inicio fin = Inr (Some r)"
  shows "length (causas_raiz_top r) \<le> 5 \<and>
    length (causas_raiz_top r) =
      min 5 (length (primeras (map causa_de (fallas_del_periodo isof inicio fin fallas)))) \<and>
    sorted_wrt (\<lambda>a b. snd b \<le> snd a) (causas_raiz_top r) \<and>
    sorted_wrt (antes_en_tabla (map causa_de (fallas_del_periodo isof inicio fin fallas)))
      (causas_raiz_top r) \<and>
    distinct (map fst (causas_raiz_top r)) \<and>
    (\<forall>(k, c) \<in> set (causas_raiz_top r).
       k \<in> set (map causa_de (fallas_del_periodo isof inicio fin fallas)) \<and>
       c = count_list (map causa_de (fallas_del_periodo isof inicio fin fallas)) k) \<and>
    (\<forall>k \<in> set (map causa_de (fallas_del_periodo isof inicio fin fallas)).
       k \<notin> fst ` set (causas_raiz_top r) \<longrightarrow>
       length (causas_raiz_top r) = 5 \<and>
       (\<forall>a \<in> set (causas_raiz_top r).
          antes_en_tabla (map causa_de (fallas_del_periodo isof inicio fin fallas)) a
            (k, count_list (map causa_de (fallas_del_periodo isof inicio fin fallas)) k))) \<and>
    (\<forall>c. (Some ''No especificada'', c) \<in> set (causas_raiz_top r) \<longrightarrow>
       c = length (filter (\<lambda>f. causa_raiz f = SinClave \<or>
                                causa_raiz f = Valor ''No especificada'')
                     (fallas_del_periodo isof inicio fin fallas)))"
proof -
  let ?fs = "fallas_del_periodo isof inicio fin fallas"
  let ?ks = "map causa_de ?fs"
  from assms have "r = estadisticas inicio fin ?fs"
    by (simp add: generar_reporte_eq split: if_splits)
  then have tp: "causas_raiz_top r = take 5 (causas_ordenadas (contar_causas ?fs))"
    by (simp add: estadisticas_def Let_def)
  note t = top5_de_tabla [of ?fs, folded tp]
  have cnt: "\<forall>(k, c) \<in> set (causas_raiz_top r). k \<in> set ?ks \<and> c = count_list ?ks k"
    by (rule t(5))
  have "\<forall>c. (Some ''No especificada'', c) \<in> set (causas_raiz_top r) \<longrightarrow>
       c = length (filter (\<lambda>f. causa_raiz f = SinClave \<or>
                                causa_raiz f = Valor ''No especificada'') ?fs)"
  proof (intro allI impI)
    fix c assume "(Some ''No especificada'', c) \<in> set (causas_raiz_top r)"
    with cnt have "c = count_list ?ks (Some ''No especificada'')" by blast
    then show "c = length (filter (\<lambda>f. causa_raiz f = SinClave \<or>
                                causa_raiz f = Valor ''No especificada'') ?fs)"
      by (simp add: count_list_map_filter causa_de_sentinel)
  qed
  moreover have "length (causas_raiz_top r) \<le> 5" by (simp add: tp)
  ultimately show ?thesis using t by blast
qed

text \<open>
  Claim C7 at its failing inputs. A record whose \<^verbatim>\<open>'causa_raiz'\<close> is \<^verbatim>\<open>None\<close> has no
  root cause, yet it is not counted under \<^verbatim>\<open>'No especificada'\<close>: reported together with
  a record that lacks the key, it gets an entry of its own whose key is \<^verbatim>\<open>None\<close>.
\<close>

theorem causas_raiz_nula_sin_centinela:
  assumes "causa_raiz f = Nulo" and "causa_raiz g = SinClave"
      and "generar_reporte_estadistico isof [f, g] None None = Inr (Some r)"
  shows "causas_raiz_top r = [(None, 1), (Some ''No especificada'', 1)]"
proof -
  from assms(3) have "r = estadisticas None None [f, g]"
    by (simp add: generar_reporte_eq fallas_del_periodo_def)
  then show ?thesis using assms(1,2)
    by (simp add: estadisticas_def Let_def contar_causas_def causa_de_def causas_ordenadas_def)
qed

theorem causas_raiz_nula_sin_centinela_witness:
  "causa_raiz (falla_vacia\<lparr>causa_raiz := Nulo\<rparr>) = Nulo \<and>
   causa_raiz falla_vacia = SinClave \<and>
   generar_reporte_estadistico iso_ejemplo
     [falla_vacia\<lparr>causa_raiz := Nulo\<rparr>, falla_vacia] None None
   = Inr (Some \<lparr>periodo_inicio = None, periodo_fin = None, total_fallas = 2,
                tiempo_promedio_reparacion = 0, tiempo_total_fuera_servicio = 0,
                costo_total_reparaciones = 0,
                causas_raiz_top = [(None, 1), (Some ''No especificada'', 1)]\<rparr>)"
proof -
  let ?r = "\<lparr>periodo_inicio = None, periodo_fin = None, total_fallas = 2,
                tiempo_promedio_reparacion = 0, tiempo_total_fuera_servicio = 0,
                costo_total_reparaciones = 0,
                causas_raiz_top = [(None, 1), (Some ''No especificada'', 1)]\<rparr>"
  have a: "causa_raiz (falla_vacia\<lparr>causa_raiz := Nulo\<rparr>) = Nulo" by simp
  have b: "causa_raiz falla_vacia = SinClave" by (simp add: falla_vacia_def)
  obtain r where e: "generar_reporte_estadistico iso_ejemplo
     [falla_vacia\<lparr>causa_raiz := Nulo\<rparr>, falla_vacia] None None = Inr (Some r)"
    by (simp add: generar_reporte_eq fallas_del_periodo_def)
  have t: "causas_raiz_top r = [(None, 1), (Some ''No especificada'', 1)]"
    using a b e by (rule causas_raiz_nula_sin_centinela)
  from e have "r = estadisticas None None [falla_vacia\<lparr>causa_raiz := Nulo\<rparr>, falla_vacia]"
    by (simp add: generar_reporte_eq fallas_del_periodo_def)
  then have "r = ?r" using t
    by (simp add: estadisticas_def Let_def falla_vacia_def map_filter_simps)
  with e a b show ?thesis by simp
qed

text \<open>
  Seven causes, five of them met once: the two met last are left out.
\<close>

theorem causas_raiz_top5_witness:
  "generar_reporte_estadistico iso_ejemplo
     [falla_vacia\<lparr>causa_raiz := Valor ''a''\<rparr>,
      falla_vacia\<lparr>causa_raiz := Valor ''b''\<rparr>,
      falla_vacia,
      falla_vacia\<lparr>causa_raiz := Valor ''c''\<rparr>,
      falla_vacia\<lparr>causa_raiz := Valor ''d''\<rparr>,
      falla_vacia\<lparr>causa_raiz := Valor ''e''\<rparr>,
      falla_vacia\<lparr>causa_raiz := Valor ''f''\<rparr>,
      falla_vacia\<lparr>causa_raiz := Valor ''e''\<rparr>,
      falla_vacia] None None
   = Inr (Some \<lparr>periodo_inicio = None, periodo_fin = None, total_fallas = 9,
                tiempo_promedio_reparacion = 0, tiempo_total_fuera_servicio = 0,
                costo_total_reparaciones = 0,
                causas_raiz_top = [(Some ''No especificada'', 2), (Some ''e'', 2),
                                   (Some ''a'', 1), (Some ''b'', 1), (Some ''c'', 1)]\<rparr>) \<and>
   length [(Some ''No especificada'', 2::nat), (Some ''e'', 2),
           (Some ''a'', 1), (Some ''b'', 1), (Some ''c'', 1)] \<le> 5"
proof -
  let ?fs = "[falla_vacia\<lparr>causa_raiz := Valor ''a''\<rparr>,
      falla_vacia\<lparr>causa_raiz := Valor ''b''\<rparr>,
      falla_vacia,
      falla_vacia\<lparr>causa_raiz := Valor ''c''\<rparr>,
      falla_vacia\<lparr>causa_raiz := Valor ''d''\<rparr>,
      falla_vacia\<lparr>causa_raiz := Valor ''e''\<rparr>,
      falla_vacia\<lparr>causa_raiz := Valor ''f''\<rparr>,
      falla_vacia\<lparr>causa_raiz := Valor ''e''\<rparr>,
      falla_vacia]"
  let ?r = "\<lparr>periodo_inicio = None, periodo_fin = None, total_fallas = 9,
                tiempo_promedio_reparacion = 0, tiempo_total_fuera_servicio = 0,
                costo_total_reparaciones = 0,
                causas_raiz_top = [(Some ''No especificada'', 2), (Some ''e'', 2),
                                   (Some ''a'', 1), (Some ''b'', 1), (Some ''c'', 1)]\<rparr>"
  have e: "generar_reporte_estadistico iso_ejemplo ?fs None None = Inr (Some ?r)"
    by (simp add: evalua_reporte)
  have "length (causas_raiz_top ?r) \<le> 5"
    using causas_raiz_top5 [OF e] by (rule conjunct1)
  with e show ?thesis by simp
qed

end
